theory Spec2Isabelle
  imports Main
begin

section \<open>The V5 WebSocket client (src/websocket-client-v5.ts)\<close>

text \<open>
  The client is a class with mutable fields, driven by an event loop: public methods,
  socket callbacks and timer callbacks each run to completion as one turn. The model is
  a record of the client's fields together with what the turn leaves behind in its
  environment (the sockets it created and what it sent on them, the timers it set, the
  events it emitted, what it logged), and one function per method or callback taking the
  record and returning it updated. A thrown exception is a returned error value.
\<close>

subsection \<open>Data\<close>

datatype V5WSCategory = CSpot | CLinear | CInverse | COption | CPrivate

text \<open>The category as the string literal the source writes into its messages.\<close>

fun category_name :: "V5WSCategory \<Rightarrow> string" where
  "category_name CSpot = ''spot''"
| "category_name CLinear = ''linear''"
| "category_name CInverse = ''inverse''"
| "category_name COption = ''option''"
| "category_name CPrivate = ''private''"

text \<open>
  Modelled from the spec: \<open>WS_KEY_MAP\<close> and the type \<open>WsKey\<close> (util/websocket-util and
  types, not among the sources). The spec's Connection Key is an enumerated identifier,
  one per category; the five entries the client reads are distinct keys.
\<close>

datatype WsKey = v5Spot | v5Linear | v5Inverse | v5Option | v5Private

text \<open>
  Modelled from the spec: \<open>WsConnectionStateEnum\<close> (util/WsStore, not among the sources),
  the four lifecycle states of the spec's Connection Record.
\<close>

datatype WsConnectionStateEnum = INITIAL | CONNECTING | CONNECTED | CLOSING

text \<open>The \<open>readyState\<close> of a transport socket (the WebSocket API's four constants).\<close>

datatype ReadyState = WS_CONNECTING | WS_OPEN | WS_CLOSING | WS_CLOSED

datatype error = Error string

datatype level = Info | Warning | ErrorLevel | Debug

text \<open>The interface \<open>WSMessage\<close>: every field optional. The payload \<open>data\<close> is kept as text.\<close>

record WSMessage =
  op :: "string option"
  args :: "string list option"
  req_id :: "string option"
  topic :: "string option"
  data :: "string option"
  success :: "bool option"
  ret_msg :: "string option"
  conn_id :: "string option"
  type :: "string option"

definition empty_message :: WSMessage where
  "empty_message = \<lparr>op = None, args = None, req_id = None, topic = None, data = None,
     success = None, ret_msg = None, conn_id = None, type = None\<rparr>"

text \<open>
  \<open>signMessage\<close> (util/node-support) is an external collaborator; a signature is
  represented by the call that produces it: the signed text and the secret.
\<close>

datatype signature = signMessage string string

text \<open>
  What goes out on a socket: the object handed to \<open>JSON.stringify\<close>, either a
  \<open>WSMessage\<close> or the \<open>AuthMessage\<close> with its arguments key, expiry and signature.
\<close>

datatype frame = Frame WSMessage | AuthMessage string nat signature

record V5WSClientOptions =
  key :: "string option"
  secret :: "string option"
  testnet :: bool
  pingInterval :: nat
  pongTimeout :: nat
  reconnectTimeout :: nat
  restoreSubscriptionsOnReconnect :: bool
  requestTimeoutMs :: nat

text \<open>The defaults the constructor spreads the caller's options over.\<close>

definition default_options :: V5WSClientOptions where
  "default_options = \<lparr>key = None, secret = None, testnet = False, pingInterval = 20000,
     pongTimeout = 10000, reconnectTimeout = 500, restoreSubscriptionsOnReconnect = True,
     requestTimeoutMs = 10000\<rparr>"

text \<open>JavaScript truthiness of an optional string: present and not empty.\<close>

fun truthy :: "string option \<Rightarrow> bool" where
  "truthy None = False"
| "truthy (Some v) = (v \<noteq> [])"

datatype promise = Pending | Fulfilled | Rejected error

text \<open>
  Who waits for the promise of \<open>connectWS\<close>: the caller of \<open>connect\<close>, or the timer
  callback of \<open>handleReconnection\<close>, whose \<open>await\<close> continues with the replay of the
  subscriptions and whose \<open>catch\<close> backs off.
\<close>

datatype awaiter = Caller | Reconnection

text \<open>
  A socket created by \<open>connectWS\<close>, with what its four callbacks close over: the
  category and the promise's \<open>resolve\<close>/\<open>reject\<close>.
\<close>

record socket =
  url :: string
  category :: V5WSCategory
  readyState :: ReadyState
  sent :: "frame list"
  settled :: promise
  awaited_by :: awaiter

text \<open>
  Modelled from the spec: the Connection Record of \<open>WsStore\<close> (util/WsStore, not among
  the sources): the socket handle, the lifecycle state and the topic set. The topic set
  is a JavaScript \<open>Set\<close>: unique by value, enumerated in insertion order.
\<close>

record WsConnectionRecord =
  ws :: "nat option"
  connectionState :: WsConnectionStateEnum
  subscribedTopics :: "string list"

type_synonym WsStore = "WsKey \<rightharpoonup> WsConnectionRecord"

datatype timer_callback = AuthTimeout nat | ReconnectTimer V5WSCategory | PingTimer V5WSCategory

record timer =
  callback :: timer_callback
  delay :: nat
  active :: bool

text \<open>
  One run of \<open>authenticate\<close> past its guard: the promise it returns, the socket whose
  connect promise it feeds, and its timeout.
\<close>

record handshake =
  for_socket :: nat
  outcome :: promise
  timeout :: nat

datatype event =
    open_event V5WSCategory
  | close_event V5WSCategory nat string
  | error_event V5WSCategory error
  | response_event WSMessage
  | update_event V5WSCategory string "string option" "string option"
  | message_event V5WSCategory WSMessage

record client =
  options :: V5WSClientOptions
  wsStore :: WsStore
  requestIdCounter :: nat
  sockets :: "socket list"
  handshakes :: "handshake list"
  response_once :: "nat list"
  timers :: "timer list"
  emitted :: "event list"
  logged :: "(level \<times> string) list"

definition new_client :: "V5WSClientOptions \<Rightarrow> client" where
  "new_client opts = \<lparr>options = opts, wsStore = Map.empty, requestIdCounter = 0,
     sockets = [], handshakes = [], response_once = [], timers = [], emitted = [],
     logged = []\<rparr>"

subsection \<open>Numbers in template strings\<close>

definition digit_char :: "nat \<Rightarrow> char" where
  "digit_char n = ''0123456789'' ! n"

fun string_of_nat :: "nat \<Rightarrow> string" where
  "string_of_nat n =
     (if n < 10 then [digit_char n] else string_of_nat (n div 10) @ [digit_char (n mod 10)])"

declare string_of_nat.simps [simp del]

subsection \<open>The connection registry\<close>

text \<open>
  \<open>WsStore\<close> (util/WsStore) is not among the sources; its operations are modelled from
  section 4.1 of the spec: synchronous, in memory, keyed by connection key, one record
  per key, created lazily and never deleted.
\<close>

text \<open>Modelled from the spec: the record a key has before anything was stored for it
  (state INITIAL, no socket, no topics).\<close>

definition initial_record :: WsConnectionRecord where
  "initial_record = \<lparr>ws = None, connectionState = INITIAL, subscribedTopics = []\<rparr>"

text \<open>Modelled from the spec: \<open>get(key)\<close>, with the lazily created record for an
  absent key.\<close>

definition get_record :: "WsStore \<Rightarrow> WsKey \<Rightarrow> WsConnectionRecord" where
  "get_record st k = (case st k of None \<Rightarrow> initial_record | Some r \<Rightarrow> r)"

text \<open>Modelled from the spec: \<open>getWs\<close>, the socket of the key's record, if any.\<close>

definition getWs :: "WsStore \<Rightarrow> WsKey \<Rightarrow> nat option" where
  "getWs st k = (case st k of None \<Rightarrow> None | Some r \<Rightarrow> ws r)"

text \<open>Modelled from the spec: \<open>set(key, socket)\<close>; the socket is replaced, state and
  topics of the record stay.\<close>

definition setWs :: "WsStore \<Rightarrow> WsKey \<Rightarrow> nat \<Rightarrow> WsStore" where
  "setWs st k i = st(k \<mapsto> (get_record st k)\<lparr>ws := Some i\<rparr>)"

text \<open>Modelled from the spec: \<open>state(key)\<close>.\<close>

definition getConnectionState :: "WsStore \<Rightarrow> WsKey \<Rightarrow> WsConnectionStateEnum" where
  "getConnectionState st k = connectionState (get_record st k)"

text \<open>Modelled from the spec: \<open>setState(key, State)\<close>.\<close>

definition setConnectionState :: "WsStore \<Rightarrow> WsKey \<Rightarrow> WsConnectionStateEnum \<Rightarrow> WsStore" where
  "setConnectionState st k c = st(k \<mapsto> (get_record st k)\<lparr>connectionState := c\<rparr>)"

text \<open>Modelled from the spec: \<open>topics(key)\<close>.\<close>

definition getTopics :: "WsStore \<Rightarrow> WsKey \<Rightarrow> string list" where
  "getTopics st k = subscribedTopics (get_record st k)"

text \<open>Modelled from the spec: \<open>addTopic(key, topic)\<close>; topics are unique by value.\<close>

definition addTopic :: "WsStore \<Rightarrow> WsKey \<Rightarrow> string \<Rightarrow> WsStore" where
  "addTopic st k t =
     (let r = get_record st k; ts = subscribedTopics r
      in st(k \<mapsto> r\<lparr>subscribedTopics := (if t \<in> set ts then ts else ts @ [t])\<rparr>))"

text \<open>Modelled from the spec: \<open>removeTopic(key, topic)\<close>.\<close>

definition deleteTopic :: "WsStore \<Rightarrow> WsKey \<Rightarrow> string \<Rightarrow> WsStore" where
  "deleteTopic st k t =
     (let r = get_record st k
      in st(k \<mapsto> r\<lparr>subscribedTopics := removeAll t (subscribedTopics r)\<rparr>))"

text \<open>A socket is usable when it exists and its \<open>readyState\<close> is open.\<close>

definition socket_open :: "client \<Rightarrow> nat \<Rightarrow> bool" where
  "socket_open s i = (i < length (sockets s) \<and> readyState (sockets s ! i) = WS_OPEN)"

text \<open>Modelled from the spec: \<open>isOpen(key)\<close>, true iff the state is CONNECTED and the
  socket is usable.\<close>

definition isWsOpen :: "client \<Rightarrow> WsKey \<Rightarrow> bool" where
  "isWsOpen s k =
     (case wsStore s k of
        None \<Rightarrow> False
      | Some r \<Rightarrow> connectionState r = CONNECTED \<and>
          (case ws r of None \<Rightarrow> False | Some i \<Rightarrow> socket_open s i))"

subsection \<open>Logging, events, timers and the transport\<close>

definition log_line :: "level \<Rightarrow> string \<Rightarrow> client \<Rightarrow> client" where
  "log_line l m s = s\<lparr>logged := logged s @ [(l, m)]\<rparr>"

definition emit :: "event \<Rightarrow> client \<Rightarrow> client" where
  "emit e s = s\<lparr>emitted := emitted s @ [e]\<rparr>"

text \<open>\<open>setTimeout\<close>/\<open>setInterval\<close>: the new timer's handle is its index.\<close>

definition set_timer :: "timer_callback \<Rightarrow> nat \<Rightarrow> client \<Rightarrow> client" where
  "set_timer cb d s = s\<lparr>timers := timers s @ [\<lparr>callback = cb, delay = d, active = True\<rparr>]\<rparr>"

definition clear_timer :: "nat \<Rightarrow> client \<Rightarrow> client" where
  "clear_timer i s =
     (if i < length (timers s) then s\<lparr>timers := (timers s)[i := (timers s ! i)\<lparr>active := False\<rparr>]\<rparr>
      else s)"

text \<open>\<open>ws.send\<close> on an open socket: the frame is appended to what the socket has sent.\<close>

definition ws_send :: "nat \<Rightarrow> frame \<Rightarrow> client \<Rightarrow> client" where
  "ws_send i m s =
     (if i < length (sockets s)
      then s\<lparr>sockets := (sockets s)[i := (sockets s ! i)\<lparr>sent := sent (sockets s ! i) @ [m]\<rparr>]\<rparr>
      else s)"

text \<open>\<open>ws.close()\<close>: a socket that is connecting or open starts closing.\<close>

definition ws_close :: "nat \<Rightarrow> client \<Rightarrow> client" where
  "ws_close i s =
     (if i < length (sockets s) \<and> readyState (sockets s ! i) \<in> {WS_CONNECTING, WS_OPEN}
      then s\<lparr>sockets := (sockets s)[i := (sockets s ! i)\<lparr>readyState := WS_CLOSING\<rparr>]\<rparr>
      else s)"

definition set_readyState :: "nat \<Rightarrow> ReadyState \<Rightarrow> client \<Rightarrow> client" where
  "set_readyState i r s =
     (if i < length (sockets s)
      then s\<lparr>sockets := (sockets s)[i := (sockets s ! i)\<lparr>readyState := r\<rparr>]\<rparr>
      else s)"

subsection \<open>The public methods\<close>

fun getWsKey :: "V5WSCategory \<Rightarrow> WsKey" where
  "getWsKey CSpot = v5Spot"
| "getWsKey CLinear = v5Linear"
| "getWsKey CInverse = v5Inverse"
| "getWsKey COption = v5Option"
| "getWsKey CPrivate = v5Private"

definition getWsBaseUrl :: "client \<Rightarrow> V5WSCategory \<Rightarrow> string" where
  "getWsBaseUrl s c =
     (let baseUrl = (if testnet (options s) then ''wss://stream-testnet.bybit.com''
                     else ''wss://stream.bybit.com'')
      in baseUrl @ ''/v5/'' @ category_name c)"

definition generateRequestId :: "nat \<Rightarrow> client \<Rightarrow> string \<times> client" where
  "generateRequestId now s =
     (let n = requestIdCounter s + 1
      in (''req_'' @ string_of_nat n @ ''_'' @ string_of_nat now, s\<lparr>requestIdCounter := n\<rparr>))"

text \<open>
  \<open>sendWSMessage\<close> throws when the store has no socket for the category or the socket
  is not open; a method that can throw returns the error, if any, beside the state. The
  logger receives the message text; further arguments of a log call are left out.
\<close>

definition sendWSMessage :: "V5WSCategory \<Rightarrow> frame \<Rightarrow> client \<Rightarrow> error option \<times> client" where
  "sendWSMessage c m s =
     (case getWs (wsStore s) (getWsKey c) of
        None \<Rightarrow> (Some (Error (''WebSocket for '' @ category_name c @ '' is not connected'')), s)
      | Some i \<Rightarrow>
          if \<not> socket_open s i
          then (Some (Error (''WebSocket for '' @ category_name c @ '' is not connected'')), s)
          else (None, ws_send i m
                 (log_line Debug (''Sending message to '' @ category_name c @ '':'') s)))"

definition subscribe :: "V5WSCategory \<Rightarrow> string list \<Rightarrow> nat \<Rightarrow> client \<Rightarrow> error option \<times> client" where
  "subscribe c topics now s =
     (let wsKey = getWsKey c in
      if \<not> isWsOpen s wsKey
      then (Some (Error (''WebSocket for category '' @ category_name c @ '' is not connected'')), s)
      else
        let (rid, s1) = generateRequestId now s;
            request = empty_message\<lparr>op := Some ''subscribe'', args := Some topics,
                        req_id := Some rid\<rparr>
        in case sendWSMessage c (Frame request) s1 of
             (Some e, s2) \<Rightarrow> (Some e, s2)
           | (None, s2) \<Rightarrow>
               (None, s2\<lparr>wsStore := fold (\<lambda>t st. addTopic st wsKey t) topics (wsStore s2)\<rparr>))"

definition unsubscribe :: "V5WSCategory \<Rightarrow> string list \<Rightarrow> nat \<Rightarrow> client \<Rightarrow> error option \<times> client" where
  "unsubscribe c topics now s =
     (let wsKey = getWsKey c in
      if \<not> isWsOpen s wsKey
      then (Some (Error (''WebSocket for category '' @ category_name c @ '' is not connected'')), s)
      else
        let (rid, s1) = generateRequestId now s;
            request = empty_message\<lparr>op := Some ''unsubscribe'', args := Some topics,
                        req_id := Some rid\<rparr>
        in case sendWSMessage c (Frame request) s1 of
             (Some e, s2) \<Rightarrow> (Some e, s2)
           | (None, s2) \<Rightarrow>
               (None, s2\<lparr>wsStore := fold (\<lambda>t st. deleteTopic st wsKey t) topics (wsStore s2)\<rparr>))"

definition subscribePrivateTopic :: "string list \<Rightarrow> nat \<Rightarrow> client \<Rightarrow> error option \<times> client" where
  "subscribePrivateTopic topics now s =
     (if \<not> truthy (key (options s)) \<or> \<not> truthy (secret (options s))
      then (Some (Error ''API key and secret are required for private topics''), s)
      else subscribe CPrivate topics now s)"

definition subscribeOrders :: "nat \<Rightarrow> client \<Rightarrow> error option \<times> client" where
  "subscribeOrders now s = subscribePrivateTopic [''order''] now s"

definition close :: "V5WSCategory \<Rightarrow> client \<Rightarrow> client" where
  "close c s =
     (let wsKey = getWsKey c in
      case getWs (wsStore s) wsKey of
        None \<Rightarrow> s
      | Some i \<Rightarrow> ws_close i (s\<lparr>wsStore := setConnectionState (wsStore s) wsKey CLOSING\<rparr>))"

subsection \<open>Reconnection\<close>

definition handleReconnection :: "V5WSCategory \<Rightarrow> client \<Rightarrow> client" where
  "handleReconnection c s =
     (let reconnectDelay = reconnectTimeout (options s)
      in set_timer (ReconnectTimer c) reconnectDelay
           (log_line Info (''Attempting to reconnect '' @ category_name c @ '' in '' @
              string_of_nat reconnectDelay @ ''ms'') s))"

text \<open>The \<open>catch\<close> block of the timer callback of \<open>handleReconnection\<close>.\<close>

definition reconnect_catch :: "V5WSCategory \<Rightarrow> client \<Rightarrow> client" where
  "reconnect_catch c s =
     (let s1 = log_line ErrorLevel (''Failed to reconnect '' @ category_name c @ '':'') s;
          s2 = s1\<lparr>options := (options s1)
                 \<lparr>reconnectTimeout := min (reconnectTimeout (options s1) * 2) 30000\<rparr>\<rparr>
      in handleReconnection c s2)"

text \<open>
  The rest of the \<open>try\<close> block after \<open>await this.connectWS(...)\<close> has returned: the
  replay of the stored topics. An exception of \<open>subscribe\<close> lands in the same \<open>catch\<close>.
\<close>

definition restore_subscriptions :: "V5WSCategory \<Rightarrow> nat \<Rightarrow> client \<Rightarrow> client" where
  "restore_subscriptions c now s =
     (let wsKey = getWsKey c; topics = getTopics (wsStore s) wsKey in
      if length topics > 0
      then (case subscribe c topics now
                   (log_line Info (''Restoring '' @ string_of_nat (length topics) @
                      '' subscriptions for '' @ category_name c) s) of
              (Some e, s1) \<Rightarrow> reconnect_catch c s1
            | (None, s1) \<Rightarrow> s1)
      else s)"

subsection \<open>Connecting\<close>

text \<open>
  \<open>connectWS\<close> up to the point where it returns its promise: the socket is created,
  stored, and the state set to CONNECTING. The new socket's handle is its index.
\<close>

definition connectWS :: "V5WSCategory \<Rightarrow> string \<Rightarrow> awaiter \<Rightarrow> client \<Rightarrow> nat \<times> client" where
  "connectWS c wsUrl aw s =
     (let s1 = log_line Info (''Connecting to '' @ category_name c @ '': '' @ wsUrl) s;
          i = length (sockets s1);
          s2 = s1\<lparr>sockets := sockets s1 @
                 [\<lparr>url = wsUrl, category = c, readyState = WS_CONNECTING, sent = [],
                   settled = Pending, awaited_by = aw\<rparr>]\<rparr>;
          wsKey = getWsKey c;
          s3 = s2\<lparr>wsStore := setWs (wsStore s2) wsKey i\<rparr>
      in (i, s3\<lparr>wsStore := setConnectionState (wsStore s3) wsKey CONNECTING\<rparr>))"

text \<open>
  What \<open>connect\<close> hands back: a promise already fulfilled (the early \<open>return\<close>), or the
  promise of \<open>connectWS\<close> for the socket of that index.
\<close>

datatype connect_result = Done | Promise nat

definition connect :: "V5WSCategory \<Rightarrow> client \<Rightarrow> connect_result \<times> client" where
  "connect c s =
     (let wsUrl = getWsBaseUrl s c; wsKey = getWsKey c in
      if isWsOpen s wsKey
      then (Done, log_line Warning
                    (''WebSocket for '' @ category_name c @ '' is already connected'') s)
      else (case connectWS c wsUrl Caller s of (i, s1) \<Rightarrow> (Promise i, s1)))"

text \<open>
  Settling the promise of \<open>connectWS\<close>: only a pending promise changes, and only then
  does whoever awaits it continue.
\<close>

definition settle :: "nat \<Rightarrow> promise \<Rightarrow> client \<Rightarrow> bool \<times> client" where
  "settle i p s =
     (if i < length (sockets s) \<and> settled (sockets s ! i) = Pending
      then (True, s\<lparr>sockets := (sockets s)[i := (sockets s ! i)\<lparr>settled := p\<rparr>]\<rparr>)
      else (False, s))"

definition continue_awaiter :: "nat \<Rightarrow> nat \<Rightarrow> client \<Rightarrow> client" where
  "continue_awaiter i now s =
     (if i < length (sockets s)
      then (let k = sockets s ! i in
            case awaited_by k of
              Caller \<Rightarrow> s
            | Reconnection \<Rightarrow>
                (case settled k of
                   Fulfilled \<Rightarrow> restore_subscriptions (category k) now s
                 | Rejected e \<Rightarrow> reconnect_catch (category k) s
                 | Pending \<Rightarrow> s))
      else s)"

definition resolve :: "nat \<Rightarrow> nat \<Rightarrow> client \<Rightarrow> client" where
  "resolve i now s =
     (case settle i Fulfilled s of (True, s1) \<Rightarrow> continue_awaiter i now s1 | (False, s1) \<Rightarrow> s1)"

definition reject :: "nat \<Rightarrow> error \<Rightarrow> nat \<Rightarrow> client \<Rightarrow> client" where
  "reject i e now s =
     (case settle i (Rejected e) s of (True, s1) \<Rightarrow> continue_awaiter i now s1 | (False, s1) \<Rightarrow> s1)"

subsection \<open>Heartbeat and authentication\<close>

definition startPingPong :: "V5WSCategory \<Rightarrow> client \<Rightarrow> client" where
  "startPingPong c s = set_timer (PingTimer c) (pingInterval (options s)) s"

text \<open>The callback of the interval, \<open>t\<close> being the interval's own handle.\<close>

definition ping_tick :: "V5WSCategory \<Rightarrow> nat \<Rightarrow> client \<Rightarrow> client" where
  "ping_tick c t s =
     (if \<not> isWsOpen s (getWsKey c) then clear_timer t s
      else (case sendWSMessage c (Frame (empty_message\<lparr>op := Some ''ping''\<rparr>)) s of
              (Some e, s1) \<Rightarrow>
                clear_timer t
                  (log_line ErrorLevel (''Failed to send ping to '' @ category_name c @ '':'') s1)
            | (None, s1) \<Rightarrow> s1))"

definition settle_handshake :: "nat \<Rightarrow> promise \<Rightarrow> client \<Rightarrow> bool \<times> client" where
  "settle_handshake h p s =
     (if h < length (handshakes s) \<and> outcome (handshakes s ! h) = Pending
      then (True, s\<lparr>handshakes := (handshakes s)[h := (handshakes s ! h)\<lparr>outcome := p\<rparr>]\<rparr>)
      else (False, s))"

text \<open>
  \<open>authenticate\<close> for the socket \<open>i\<close> that has just opened, at time \<open>now\<close>. The result
  is the error with which the returned promise is rejected within this turn (the guard,
  or an exception of \<open>sendWSMessage\<close> inside the executor), or none when the promise
  stays pending, waiting for the listener or the timeout. The promise of \<open>signMessage\<close>
  is taken to resolve within the turn, as the HMAC of node's crypto does, so that no
  other event comes between the opening of the socket and the auth request.
\<close>

definition authenticate :: "V5WSCategory \<Rightarrow> nat \<Rightarrow> nat \<Rightarrow> client \<Rightarrow> error option \<times> client" where
  "authenticate c i now s =
     (case (key (options s), secret (options s)) of
        (Some k, Some sec) \<Rightarrow>
          if k = [] \<or> sec = []
          then (Some (Error ''API key and secret are required for authentication''), s)
          else
            let expires = now + 10000;
                signature = signMessage (''GET/realtime'' @ string_of_nat expires) sec;
                authMessage = AuthMessage k expires signature;
                h = length (handshakes s);
                t = length (timers s);
                s1 = set_timer (AuthTimeout h) (requestTimeoutMs (options s)) s;
                s2 = s1\<lparr>handshakes := handshakes s1 @
                       [\<lparr>for_socket = i, outcome = Pending, timeout = t\<rparr>]\<rparr>;
                s3 = s2\<lparr>response_once := response_once s2 @ [h]\<rparr>
            in (case sendWSMessage c authMessage s3 of
                  (Some e, s4) \<Rightarrow> (Some e, snd (settle_handshake h (Rejected e) s4))
                | (None, s4) \<Rightarrow> (None, s4))
      | _ \<Rightarrow> (Some (Error ''API key and secret are required for authentication''), s))"

text \<open>
  The listener \<open>handleAuth\<close> of handshake \<open>h\<close>; the flag tells whether it settled the
  handshake's promise.
\<close>

definition handleAuth :: "nat \<Rightarrow> WSMessage \<Rightarrow> client \<Rightarrow> bool \<times> client" where
  "handleAuth h m s =
     (if op m = Some ''auth'' \<and> h < length (handshakes s)
      then (let s1 = clear_timer (timeout (handshakes s ! h)) s in
            if success m = Some True
            then settle_handshake h Fulfilled
                   (log_line Info ''WebSocket authentication successful'' s1)
            else settle_handshake h
                   (Rejected (Error (''Authentication failed: '' @
                      (case ret_msg m of None \<Rightarrow> ''undefined'' | Some r \<Rightarrow> r))))
                   (log_line ErrorLevel ''WebSocket authentication failed:'' s1))
      else (False, s))"

text \<open>
  What \<open>onopen\<close> chained on the promise of \<open>authenticate\<close>: \<open>then\<close> emits "open" and
  resolves the connect promise, \<open>catch\<close> rejects it. The flag tells whether the connect
  promise was settled by it.
\<close>

definition after_handshake :: "nat \<Rightarrow> client \<Rightarrow> bool \<times> client" where
  "after_handshake h s =
     (if h < length (handshakes s) \<and> for_socket (handshakes s ! h) < length (sockets s)
      then (let i = for_socket (handshakes s ! h) in
            case outcome (handshakes s ! h) of
              Fulfilled \<Rightarrow> settle i Fulfilled (emit (open_event (category (sockets s ! i))) s)
            | Rejected e \<Rightarrow> settle i (Rejected e) s
            | Pending \<Rightarrow> (False, s))
      else (False, s))"

subsection \<open>The socket callbacks\<close>

definition ws_onopen :: "nat \<Rightarrow> nat \<Rightarrow> client \<Rightarrow> client" where
  "ws_onopen i now s =
     (let c = category (sockets s ! i); wsKey = getWsKey c;
          s1 = log_line Info (''WebSocket '' @ category_name c @ '' connected'') s;
          s2 = s1\<lparr>wsStore := setConnectionState (wsStore s1) wsKey CONNECTED\<rparr>;
          s3 = startPingPong c s2
      in if c = CPrivate \<and> truthy (key (options s3)) \<and> truthy (secret (options s3))
         then (case authenticate c i now s3 of
                 (Some e, s4) \<Rightarrow> reject i e now s4
               | (None, s4) \<Rightarrow> s4)
         else resolve i now (emit (open_event c) s3))"

text \<open>
  \<open>emit('response', message)\<close>: every listener registered with \<open>once\<close> is removed and
  called, in the order of registration. Promise continuations run after the listeners,
  level by level: first what was chained on the handshakes, then what awaits the connect
  promises.
\<close>

fun call_listeners :: "nat list \<Rightarrow> WSMessage \<Rightarrow> client \<Rightarrow> nat list \<times> client" where
  "call_listeners [] m s = ([], s)"
| "call_listeners (h # hs) m s =
     (case handleAuth h m s of
        (b, s1) \<Rightarrow> (case call_listeners hs m s1 of
                     (done, s2) \<Rightarrow> ((if b then [h] else []) @ done, s2)))"

fun after_handshakes :: "nat list \<Rightarrow> client \<Rightarrow> nat list \<times> client" where
  "after_handshakes [] s = ([], s)"
| "after_handshakes (h # hs) s =
     (case after_handshake h s of
        (b, s1) \<Rightarrow> (case after_handshakes hs s1 of
                     (done, s2) \<Rightarrow> ((if b then [for_socket (handshakes s ! h)] else []) @ done, s2)))"

fun continue_awaiters :: "nat list \<Rightarrow> nat \<Rightarrow> client \<Rightarrow> client" where
  "continue_awaiters [] now s = s"
| "continue_awaiters (i # is) now s = continue_awaiters is now (continue_awaiter i now s)"

definition emit_response :: "WSMessage \<Rightarrow> nat \<Rightarrow> client \<Rightarrow> client" where
  "emit_response m now s =
     (let s1 = emit (response_event m) s;
          listeners = response_once s1;
          s2 = s1\<lparr>response_once := []\<rparr>
      in case call_listeners listeners m s2 of
           (hs, s3) \<Rightarrow> (case after_handshakes hs s3 of
                         (is, s4) \<Rightarrow> continue_awaiters is now s4))"

definition handleMessage :: "V5WSCategory \<Rightarrow> WSMessage \<Rightarrow> nat \<Rightarrow> client \<Rightarrow> client" where
  "handleMessage c m now s =
     (if op m = Some ''pong''
      then log_line Debug (''Received pong from '' @ category_name c) s
      else if op m = Some ''subscribe'' \<or> op m = Some ''unsubscribe''
      then emit_response m now s
      else if op m = Some ''auth''
      then emit_response m now s
      else (case topic m of
              Some t \<Rightarrow>
                if t \<noteq> [] then emit (update_event c t (data m) (type m)) s
                else emit (message_event c m) s
            | None \<Rightarrow> emit (message_event c m) s))"

text \<open>What arrives on a socket: text that \<open>JSON.parse\<close> rejects, or a parsed message.\<close>

datatype inbound = Malformed error | Json WSMessage

definition ws_onmessage :: "nat \<Rightarrow> inbound \<Rightarrow> nat \<Rightarrow> client \<Rightarrow> client" where
  "ws_onmessage i d now s =
     (let c = category (sockets s ! i) in
      case d of
        Json m \<Rightarrow> handleMessage c m now s
      | Malformed e \<Rightarrow>
          emit (error_event c e)
            (log_line ErrorLevel (''Failed to parse message for '' @ category_name c @ '':'') s))"

definition ws_onerror :: "nat \<Rightarrow> error \<Rightarrow> nat \<Rightarrow> client \<Rightarrow> client" where
  "ws_onerror i e now s =
     (let c = category (sockets s ! i);
          s1 = log_line ErrorLevel (''WebSocket '' @ category_name c @ '' error:'') s;
          s2 = emit (error_event c e) s1
      in reject i e now s2)"

definition ws_onclose :: "nat \<Rightarrow> nat \<Rightarrow> string \<Rightarrow> client \<Rightarrow> client" where
  "ws_onclose i code reason s =
     (let c = category (sockets s ! i); wsKey = getWsKey c;
          s1 = log_line Info (''WebSocket '' @ category_name c @ '' closed:'') s;
          s2 = s1\<lparr>wsStore := setConnectionState (wsStore s1) wsKey INITIAL\<rparr>;
          s3 = emit (close_event c code reason) s2
      in if code \<noteq> 1000 \<and> restoreSubscriptionsOnReconnect (options s3)
         then handleReconnection c s3
         else s3)"

subsection \<open>The timer callbacks\<close>

text \<open>The callback of the timeout of handshake \<open>h\<close>, with the continuations it starts.\<close>

definition auth_timeout :: "nat \<Rightarrow> nat \<Rightarrow> client \<Rightarrow> client" where
  "auth_timeout h now s =
     (case settle_handshake h (Rejected (Error ''Authentication timeout'')) s of
        (True, s1) \<Rightarrow>
          (case after_handshake h s1 of
             (True, s2) \<Rightarrow> continue_awaiter (for_socket (handshakes s1 ! h)) now s2
           | (False, s2) \<Rightarrow> s2)
      | (False, s1) \<Rightarrow> s1)"

text \<open>
  The callback of the timer of \<open>handleReconnection\<close>, up to its \<open>await\<close>; it goes on in
  \<open>continue_awaiter\<close> when the promise is settled.
\<close>

definition reconnect_now :: "V5WSCategory \<Rightarrow> client \<Rightarrow> client" where
  "reconnect_now c s = snd (connectWS c (getWsBaseUrl s c) Reconnection s)"

subsection \<open>Turns of the event loop\<close>

text \<open>
  One turn is a call of a public method, a transport event on a socket, or a timer
  firing. The transport moves a socket's \<open>readyState\<close> before it calls back: a
  connecting socket opens, a socket that is not yet closed closes; a timeout fires once,
  an interval until it is cleared. Exceptions of the public methods go to the caller.
\<close>

datatype input =
    Call_connect V5WSCategory
  | Call_subscribe V5WSCategory "string list"
  | Call_unsubscribe V5WSCategory "string list"
  | Call_subscribeOrders
  | Call_close V5WSCategory
  | Socket_open nat
  | Socket_message nat inbound
  | Socket_error nat error
  | Socket_close nat nat string
  | Timer_fires nat

fun step :: "nat \<Rightarrow> input \<Rightarrow> client \<Rightarrow> client" where
  "step now (Call_connect c) s = snd (connect c s)"
| "step now (Call_subscribe c topics) s = snd (subscribe c topics now s)"
| "step now (Call_unsubscribe c topics) s = snd (unsubscribe c topics now s)"
| "step now Call_subscribeOrders s = snd (subscribeOrders now s)"
| "step now (Call_close c) s = close c s"
| "step now (Socket_open i) s =
     (if i < length (sockets s) \<and> readyState (sockets s ! i) = WS_CONNECTING
      then ws_onopen i now (set_readyState i WS_OPEN s) else s)"
| "step now (Socket_message i d) s =
     (if i < length (sockets s) \<and> readyState (sockets s ! i) \<in> {WS_OPEN, WS_CLOSING}
      then ws_onmessage i d now s else s)"
| "step now (Socket_error i e) s =
     (if i < length (sockets s) \<and> readyState (sockets s ! i) \<noteq> WS_CLOSED
      then ws_onerror i e now s else s)"
| "step now (Socket_close i code reason) s =
     (if i < length (sockets s) \<and> readyState (sockets s ! i) \<noteq> WS_CLOSED
      then ws_onclose i code reason (set_readyState i WS_CLOSED s) else s)"
| "step now (Timer_fires t) s =
     (if t < length (timers s) \<and> active (timers s ! t)
      then (case callback (timers s ! t) of
              AuthTimeout h \<Rightarrow> auth_timeout h now (clear_timer t s)
            | ReconnectTimer c \<Rightarrow> reconnect_now c (clear_timer t s)
            | PingTimer c \<Rightarrow> ping_tick c t s)
      else s)"

text \<open>A run: the turns in order, each with the clock's reading when it starts.\<close>

fun run :: "(nat \<times> input) list \<Rightarrow> client \<Rightarrow> client" where
  "run [] s = s"
| "run ((now, x) # xs) s = run xs (step now x s)"

subsection \<open>Example clients\<close>

definition with_credentials :: V5WSClientOptions where
  "with_credentials = default_options\<lparr>key := Some ''k'', secret := Some ''s''\<rparr>"

text \<open>The frame of the \<open>n\<close>-th request of the client, a subscribe sent at time \<open>now\<close>.\<close>

definition subscribe_frame :: "string list \<Rightarrow> nat \<Rightarrow> nat \<Rightarrow> frame" where
  "subscribe_frame topics n now =
     Frame (empty_message\<lparr>op := Some ''subscribe'', args := Some topics,
       req_id := Some (''req_'' @ string_of_nat n @ ''_'' @ string_of_nat now)\<rparr>)"


text \<open>
  A private connection, authenticated and subscribed to \<open>order\<close>, that was lost and
  reconnected: socket 1 is open and its handshake waits for the acknowledgement.
\<close>

definition auth_ok :: WSMessage where
  "auth_ok = empty_message\<lparr>op := Some ''auth'', success := Some True\<rparr>"

definition private_reconnecting :: client where
  "private_reconnecting =
     run [(0, Call_connect CPrivate), (1, Socket_open 0), (2, Socket_message 0 (Json auth_ok)),
          (3, Call_subscribeOrders), (4, Socket_close 0 1006 []), (504, Timer_fires 2),
          (505, Socket_open 1)]
       (new_client with_credentials)"

subsection \<open>Vocabulary of the properties\<close>







text \<open>
  The category a turn belongs to: the one named in the call, the one of the socket the
  event is on, or the one the timer was set for.
\<close>

fun turn_category :: "client \<Rightarrow> input \<Rightarrow> V5WSCategory option" where
  "turn_category s (Call_connect c) = Some c"
| "turn_category s (Call_subscribe c topics) = Some c"
| "turn_category s (Call_unsubscribe c topics) = Some c"
| "turn_category s Call_subscribeOrders = Some CPrivate"
| "turn_category s (Call_close c) = Some c"
| "turn_category s (Socket_open i) =
     (if i < length (sockets s) then Some (category (sockets s ! i)) else None)"
| "turn_category s (Socket_message i d) =
     (if i < length (sockets s) then Some (category (sockets s ! i)) else None)"
| "turn_category s (Socket_error i e) =
     (if i < length (sockets s) then Some (category (sockets s ! i)) else None)"
| "turn_category s (Socket_close i code reason) =
     (if i < length (sockets s) then Some (category (sockets s ! i)) else None)"
| "turn_category s (Timer_fires t) =
     (if t < length (timers s)
      then (case callback (timers s ! t) of
              AuthTimeout h \<Rightarrow>
                (if h < length (handshakes s) \<and> for_socket (handshakes s ! h) < length (sockets s)
                 then Some (category (sockets s ! for_socket (handshakes s ! h))) else None)
            | ReconnectTimer c \<Rightarrow> Some c
            | PingTimer c \<Rightarrow> Some c)
      else None)"

text \<open>
  Two categories, both connected; the spot connection is lost and its reconnect timer
  has fired: socket 2 is connecting, awaited by the reconnection.
\<close>

definition two_categories :: client where
  "two_categories =
     run [(0, Call_connect CSpot), (1, Socket_open 0), (2, Call_connect CLinear),
          (3, Socket_open 1), (4, Call_subscribe CLinear [''tickers.BTCUSDT'']),
          (5, Socket_close 0 1006 []), (505, Timer_fires 2)]
       (new_client default_options)"

section \<open>Properties\<close>

lemmas model_defs = new_client_def default_options_def connect_def connectWS_def isWsOpen_def
  socket_open_def getWsBaseUrl_def log_line_def emit_def set_timer_def clear_timer_def ws_send_def
  ws_close_def set_readyState_def setWs_def getWs_def setConnectionState_def
  getConnectionState_def get_record_def initial_record_def getTopics_def addTopic_def
  deleteTopic_def close_def ws_onopen_def ws_onclose_def ws_onerror_def ws_onmessage_def
  handleMessage_def emit_response_def startPingPong_def resolve_def reject_def settle_def
  continue_awaiter_def restore_subscriptions_def reconnect_catch_def handleReconnection_def
  reconnect_now_def authenticate_def handleAuth_def after_handshake_def settle_handshake_def
  auth_timeout_def ping_tick_def subscribe_def unsubscribe_def subscribePrivateTopic_def
  subscribeOrders_def sendWSMessage_def generateRequestId_def empty_message_def
  with_credentials_def subscribe_frame_def auth_ok_def string_of_nat.simps digit_char_def

subsection \<open>The registry under the public methods\<close>

lemma sendWSMessage_store:
  "sendWSMessage c m s = (r, s') \<Longrightarrow> wsStore s' = wsStore s"
  by (auto simp: sendWSMessage_def ws_send_def log_line_def split: option.splits if_splits)

lemma generateRequestId_store:
  "generateRequestId now s = (r, s') \<Longrightarrow> wsStore s' = wsStore s"
  by (auto simp: generateRequestId_def Let_def)

lemma sendWSMessage_error_unchanged:
  "sendWSMessage c m s = (Some e, s') \<Longrightarrow> s' = s"
  by (auto simp: sendWSMessage_def split: option.splits if_splits)

lemma fold_addTopic_known:
  "st k = Some r \<Longrightarrow> set topics \<subseteq> set (subscribedTopics r) \<Longrightarrow>
   fold (\<lambda>t st. addTopic st k t) topics st = st"
proof (induction topics)
  case Nil
  show ?case by simp
next
  case (Cons t ts)
  have "addTopic st k t = st"
    using Cons.prems by (simp add: addTopic_def get_record_def Let_def map_upd_triv)
  then show ?case using Cons by simp
qed

lemma subscribe_open:
  assumes "wsStore s (getWsKey c) = Some r" "connectionState r = CONNECTED" "ws r = Some i"
    "socket_open s i"
  shows "subscribe c topics now s =
    (None, s\<lparr>requestIdCounter := requestIdCounter s + 1,
             logged := logged s @ [(Debug, ''Sending message to '' @ category_name c @ '':'')],
             sockets := (sockets s)[i := (sockets s ! i)\<lparr>sent := sent (sockets s ! i) @
                [subscribe_frame topics (requestIdCounter s + 1) now]\<rparr>],
             wsStore := fold (\<lambda>t st. addTopic st (getWsKey c) t) topics (wsStore s)\<rparr>)"
  using assms
  by (simp add: subscribe_def isWsOpen_def socket_open_def generateRequestId_def sendWSMessage_def
      getWs_def ws_send_def log_line_def Let_def subscribe_frame_def)



lemma reconnect_catch_store: "wsStore (reconnect_catch c s) = wsStore s"
  by (simp add: reconnect_catch_def handleReconnection_def set_timer_def log_line_def Let_def)

lemma subscribe_known_store:
  assumes "set topics \<subseteq> set (getTopics (wsStore s) (getWsKey c))"
  shows "wsStore (snd (subscribe c topics now s)) = wsStore s"
proof (cases "isWsOpen s (getWsKey c)")
  case False
  then show ?thesis by (simp add: subscribe_def)
next
  case True
  then obtain r i where r: "wsStore s (getWsKey c) = Some r" "connectionState r = CONNECTED"
    "ws r = Some i" "socket_open s i"
    by (auto simp: isWsOpen_def split: option.splits)
  have "set topics \<subseteq> set (subscribedTopics r)"
    using assms r(1) by (simp add: getTopics_def get_record_def)
  then have "fold (\<lambda>t st. addTopic st (getWsKey c) t) topics (wsStore s) = wsStore s"
    using r(1) by (intro fold_addTopic_known)
  then show ?thesis
    by (simp add: subscribe_open [OF r])
qed

lemma restore_store: "wsStore (restore_subscriptions c now s) = wsStore s"
proof -
  let ?s1 = "log_line Info (''Restoring '' @
      string_of_nat (length (getTopics (wsStore s) (getWsKey c))) @
      '' subscriptions for '' @ category_name c) s"
  have "wsStore (snd (subscribe c (getTopics (wsStore s) (getWsKey c)) now ?s1)) = wsStore ?s1"
    by (rule subscribe_known_store) (simp add: log_line_def)
  then have "wsStore (snd (subscribe c (getTopics (wsStore s) (getWsKey c)) now ?s1)) = wsStore s"
    by (simp add: log_line_def)
  then show ?thesis
    by (auto simp: restore_subscriptions_def Let_def reconnect_catch_store
        split: prod.splits option.splits)
qed

lemma continue_awaiter_store: "wsStore (continue_awaiter i now s) = wsStore s"
  by (simp add: continue_awaiter_def Let_def restore_store reconnect_catch_store
      split: awaiter.splits promise.splits)

lemma settle_store: "settle i p s = (b, s') \<Longrightarrow> wsStore s' = wsStore s"
  by (auto simp: settle_def split: if_splits)

lemma resolve_store: "wsStore (resolve i now s) = wsStore s"
  by (auto simp: resolve_def continue_awaiter_store split: prod.splits bool.splits
      dest: settle_store)

lemma reject_store: "wsStore (reject i e now s) = wsStore s"
  by (auto simp: reject_def continue_awaiter_store split: prod.splits bool.splits
      dest: settle_store)

lemma authenticate_store: "authenticate c i now s = (r, s') \<Longrightarrow> wsStore s' = wsStore s"
  by (auto simp: authenticate_def set_timer_def settle_handshake_def Let_def
      split: option.splits if_splits prod.splits dest!: sendWSMessage_store)

lemma ws_onopen_store:
  "wsStore (ws_onopen i now s) =
     setConnectionState (wsStore s) (getWsKey (category (sockets s ! i))) CONNECTED"
  by (auto simp: ws_onopen_def Let_def log_line_def startPingPong_def set_timer_def emit_def
      resolve_store reject_store split: prod.splits option.splits dest!: authenticate_store)

lemma ws_onerror_store: "wsStore (ws_onerror i e now s) = wsStore s"
  by (simp add: ws_onerror_def Let_def reject_store log_line_def emit_def)

lemma ws_onclose_store:
  "wsStore (ws_onclose i code reason s) =
     setConnectionState (wsStore s) (getWsKey (category (sockets s ! i))) INITIAL"
  by (simp add: ws_onclose_def Let_def handleReconnection_def set_timer_def log_line_def emit_def)

lemma reconnect_now_store:
  "wsStore (reconnect_now c s) =
     setConnectionState (setWs (wsStore s) (getWsKey c) (length (sockets s))) (getWsKey c) CONNECTING"
  by (simp add: reconnect_now_def connectWS_def Let_def log_line_def)

lemma getTopics_setConnectionState [simp]:
  "getTopics (setConnectionState st k c) k' = getTopics st k'"
  by (simp add: getTopics_def setConnectionState_def get_record_def)

lemma getTopics_setWs [simp]: "getTopics (setWs st k i) k' = getTopics st k'"
  by (simp add: getTopics_def setWs_def get_record_def)

subsection \<open>Subscribing while not connected\<close>

text \<open>
  Claim C9. For every category and topic list, \<open>subscribe\<close> and \<open>unsubscribe\<close> called
  while the connection of that category is not CONNECTED fail at once with the
  not-connected error; the client is left exactly as it was, so nothing is sent, queued
  or scheduled for a retry.
\<close>

theorem subscribe_unsubscribe_not_connected:
  assumes "getConnectionState (wsStore s) (getWsKey c) \<noteq> CONNECTED"
  shows "subscribe c topics now s =
           (Some (Error (''WebSocket for category '' @ category_name c @ '' is not connected'')), s) \<and>
         unsubscribe c topics now s =
           (Some (Error (''WebSocket for category '' @ category_name c @ '' is not connected'')), s)"
proof -
  have "\<not> isWsOpen s (getWsKey c)"
    using assms
    by (auto simp: isWsOpen_def getConnectionState_def get_record_def split: option.splits)
  then show ?thesis
    by (simp add: subscribe_def unsubscribe_def)
qed

theorem subscribe_unsubscribe_not_connected_witness:
  "getConnectionState (wsStore (snd (connect CSpot (new_client default_options)))) (getWsKey CSpot)
     \<noteq> CONNECTED \<and>
   subscribe CSpot [''tickers.BTCUSDT''] 1 (snd (connect CSpot (new_client default_options))) =
     (Some (Error ''WebSocket for category spot is not connected''),
      snd (connect CSpot (new_client default_options))) \<and>
   unsubscribe CSpot [''tickers.BTCUSDT''] 1 (snd (connect CSpot (new_client default_options))) =
     (Some (Error ''WebSocket for category spot is not connected''),
      snd (connect CSpot (new_client default_options)))"
proof -
  have h: "getConnectionState (wsStore (snd (connect CSpot (new_client default_options))))
             (getWsKey CSpot) \<noteq> CONNECTED"
    by (simp add: model_defs Let_def)
  show ?thesis
    using h subscribe_unsubscribe_not_connected [OF h, of "[''tickers.BTCUSDT'']" 1]
    by simp
qed



subsection \<open>Closing on request\<close>

text \<open>
  Claim C1, evaluated on the code. The caller connects the spot category, the socket
  opens, the caller calls \<open>close\<close>: the state is CLOSING. The transport then reports
  the closure with status code 1005 (no status received). \<open>onclose\<close> looks at the code
  only, not at the state, and schedules a reconnect after 500 ms; when that timer fires
  a second socket is created. The requested closure has triggered a reconnect attempt.
\<close>

theorem requested_close_with_abnormal_code_reconnects:
  "getConnectionState
     (wsStore (run [(0, Call_connect CSpot), (1, Socket_open 0), (2, Call_close CSpot)]
        (new_client default_options))) v5Spot = CLOSING \<and>
   timers (run [(0, Call_connect CSpot), (1, Socket_open 0), (2, Call_close CSpot),
                (3, Socket_close 0 1005 [])] (new_client default_options)) =
     [\<lparr>callback = PingTimer CSpot, delay = 20000, active = True\<rparr>,
      \<lparr>callback = ReconnectTimer CSpot, delay = 500, active = True\<rparr>] \<and>
   map readyState
     (sockets (run [(0, Call_connect CSpot), (1, Socket_open 0), (2, Call_close CSpot),
                    (3, Socket_close 0 1005 []), (503, Timer_fires 1)]
        (new_client default_options))) = [WS_CLOSED, WS_CONNECTING]"
  by (simp add: model_defs Let_def)

subsection \<open>The authentication handshake\<close>

text \<open>
  Claim C8, evaluated on the code. With credentials configured, the spot category is
  connected and subscribed, then the private category is connected and its socket opens:
  the handshake is sent and its listener registered with \<open>once\<close>. The acknowledgement of
  the spot subscription arrives first: it is emitted as "response", which removes the
  listener although the message is not an auth acknowledgement. The auth acknowledgement
  with success flag true that follows finds no listener: the handshake stays pending and
  no "open" is emitted for the private category. When the timeout fires the handshake,
  and with it \<open>connect\<close>, is rejected with the timeout error.
\<close>

theorem auth_listener_consumed_by_other_acknowledgement:
  "response_once
     (run [(0, Call_connect CSpot), (1, Socket_open 0),
           (2, Call_subscribe CSpot [''tickers.BTCUSDT'']),
           (3, Call_connect CPrivate), (4, Socket_open 1)]
        (new_client with_credentials)) = [0] \<and>
   map outcome (handshakes
     (run [(0, Call_connect CSpot), (1, Socket_open 0),
           (2, Call_subscribe CSpot [''tickers.BTCUSDT'']),
           (3, Call_connect CPrivate), (4, Socket_open 1),
           (5, Socket_message 0
                 (Json (empty_message\<lparr>op := Some ''subscribe'', success := Some True\<rparr>))),
           (6, Socket_message 1 (Json auth_ok))]
        (new_client with_credentials))) = [Pending] \<and>
   emitted
     (run [(0, Call_connect CSpot), (1, Socket_open 0),
           (2, Call_subscribe CSpot [''tickers.BTCUSDT'']),
           (3, Call_connect CPrivate), (4, Socket_open 1),
           (5, Socket_message 0
                 (Json (empty_message\<lparr>op := Some ''subscribe'', success := Some True\<rparr>))),
           (6, Socket_message 1 (Json auth_ok))]
        (new_client with_credentials)) =
     [open_event CSpot,
      response_event (empty_message\<lparr>op := Some ''subscribe'', success := Some True\<rparr>),
      response_event auth_ok] \<and>
   map settled (sockets
     (run [(0, Call_connect CSpot), (1, Socket_open 0),
           (2, Call_subscribe CSpot [''tickers.BTCUSDT'']),
           (3, Call_connect CPrivate), (4, Socket_open 1),
           (5, Socket_message 0
                 (Json (empty_message\<lparr>op := Some ''subscribe'', success := Some True\<rparr>))),
           (6, Socket_message 1 (Json auth_ok)),
           (10004, Timer_fires 2)]
        (new_client with_credentials))) =
     [Fulfilled, Rejected (Error ''Authentication timeout'')]"
  by (simp add: model_defs Let_def)

subsection \<open>The example clients, evaluated\<close>


lemma private_reconnecting_eval:
  "private_reconnecting =
     \<lparr>options = with_credentials,
      wsStore = [v5Private \<mapsto> \<lparr>ws = Some 1, connectionState = CONNECTED,
                  subscribedTopics = [''order'']\<rparr>],
      requestIdCounter = 1,
      sockets =
        [\<lparr>url = ''wss://stream.bybit.com/v5/private'', category = CPrivate,
          readyState = WS_CLOSED,
          sent = [AuthMessage ''k'' 10001 (signMessage ''GET/realtime10001'' ''s''),
                  subscribe_frame [''order''] 1 3],
          settled = Fulfilled, awaited_by = Caller\<rparr>,
         \<lparr>url = ''wss://stream.bybit.com/v5/private'', category = CPrivate,
          readyState = WS_OPEN,
          sent = [AuthMessage ''k'' 10505 (signMessage ''GET/realtime10505'' ''s'')],
          settled = Pending, awaited_by = Reconnection\<rparr>],
      handshakes = [\<lparr>for_socket = 0, outcome = Fulfilled, timeout = 1\<rparr>,
                    \<lparr>for_socket = 1, outcome = Pending, timeout = 4\<rparr>],
      response_once = [1],
      timers = [\<lparr>callback = PingTimer CPrivate, delay = 20000, active = True\<rparr>,
                \<lparr>callback = AuthTimeout 0, delay = 10000, active = False\<rparr>,
                \<lparr>callback = ReconnectTimer CPrivate, delay = 500, active = False\<rparr>,
                \<lparr>callback = PingTimer CPrivate, delay = 20000, active = True\<rparr>,
                \<lparr>callback = AuthTimeout 1, delay = 10000, active = True\<rparr>],
      emitted = [response_event auth_ok, open_event CPrivate, close_event CPrivate 1006 []],
      logged = [(Info, ''Connecting to private: wss://stream.bybit.com/v5/private''),
                (Info, ''WebSocket private connected''),
                (Debug, ''Sending message to private:''),
                (Info, ''WebSocket authentication successful''),
                (Debug, ''Sending message to private:''),
                (Info, ''WebSocket private closed:''),
                (Info, ''Attempting to reconnect private in 500ms''),
                (Info, ''Connecting to private: wss://stream.bybit.com/v5/private''),
                (Info, ''WebSocket private connected''),
                (Debug, ''Sending message to private:'')]\<rparr>"
  by (simp add: private_reconnecting_def model_defs Let_def)

lemma two_categories_eval:
  "two_categories =
     \<lparr>options = default_options,
      wsStore = [v5Linear \<mapsto> \<lparr>ws = Some 1, connectionState = CONNECTED,
                   subscribedTopics = [''tickers.BTCUSDT'']\<rparr>,
                 v5Spot \<mapsto> \<lparr>ws = Some 2, connectionState = CONNECTING,
                   subscribedTopics = []\<rparr>],
      requestIdCounter = 1,
      sockets =
        [\<lparr>url = ''wss://stream.bybit.com/v5/spot'', category = CSpot, readyState = WS_CLOSED,
          sent = [], settled = Fulfilled, awaited_by = Caller\<rparr>,
         \<lparr>url = ''wss://stream.bybit.com/v5/linear'', category = CLinear,
          readyState = WS_OPEN, sent = [subscribe_frame [''tickers.BTCUSDT''] 1 4],
          settled = Fulfilled, awaited_by = Caller\<rparr>,
         \<lparr>url = ''wss://stream.bybit.com/v5/spot'', category = CSpot,
          readyState = WS_CONNECTING, sent = [], settled = Pending, awaited_by = Reconnection\<rparr>],
      handshakes = [], response_once = [],
      timers = [\<lparr>callback = PingTimer CSpot, delay = 20000, active = True\<rparr>,
                \<lparr>callback = PingTimer CLinear, delay = 20000, active = True\<rparr>,
                \<lparr>callback = ReconnectTimer CSpot, delay = 500, active = False\<rparr>],
      emitted = [open_event CSpot, open_event CLinear, close_event CSpot 1006 []],
      logged = [(Info, ''Connecting to spot: wss://stream.bybit.com/v5/spot''),
                (Info, ''WebSocket spot connected''),
                (Info, ''Connecting to linear: wss://stream.bybit.com/v5/linear''),
                (Info, ''WebSocket linear connected''),
                (Debug, ''Sending message to linear:''),
                (Info, ''WebSocket spot closed:''),
                (Info, ''Attempting to reconnect spot in 500ms''),
                (Info, ''Connecting to spot: wss://stream.bybit.com/v5/spot'')]\<rparr>"
  by (simp add: two_categories_def model_defs Let_def numeral_2_eq_2)

subsection \<open>The registry under the callbacks\<close>

lemma settle_handshake_store: "settle_handshake h p s = (b, s') \<Longrightarrow> wsStore s' = wsStore s"
  by (auto simp: settle_handshake_def split: if_splits)

lemma handleAuth_store: "handleAuth h m s = (b, s') \<Longrightarrow> wsStore s' = wsStore s"
  by (auto simp: handleAuth_def Let_def clear_timer_def log_line_def split: if_splits
      dest!: settle_handshake_store)

lemma call_listeners_store: "call_listeners hs m s = (d, s') \<Longrightarrow> wsStore s' = wsStore s"
proof (induction hs arbitrary: s d s')
  case Nil
  then show ?case by simp
next
  case (Cons h hs)
  then show ?case
    by (auto split: prod.splits dest!: handleAuth_store)
qed

lemma after_handshake_store: "after_handshake h s = (b, s') \<Longrightarrow> wsStore s' = wsStore s"
  by (auto simp: after_handshake_def Let_def emit_def split: if_splits promise.splits
      dest!: settle_store)

lemma after_handshakes_store: "after_handshakes hs s = (d, s') \<Longrightarrow> wsStore s' = wsStore s"
proof (induction hs arbitrary: s d s')
  case Nil
  then show ?case by simp
next
  case (Cons h hs)
  then show ?case
    by (auto split: prod.splits dest!: after_handshake_store)
qed

lemma continue_awaiters_store: "wsStore (continue_awaiters is now s) = wsStore s"
  by (induction "is" arbitrary: s) (simp_all add: continue_awaiter_store)

lemma emit_response_store: "wsStore (emit_response m now s) = wsStore s"
  by (auto simp: emit_response_def Let_def emit_def continue_awaiters_store split: prod.splits
      dest!: call_listeners_store after_handshakes_store)

lemma ws_onmessage_store: "wsStore (ws_onmessage i d now s) = wsStore s"
  by (simp add: ws_onmessage_def handleMessage_def Let_def emit_response_store log_line_def
      emit_def split: inbound.splits option.splits)

lemma auth_timeout_store: "wsStore (auth_timeout h now s) = wsStore s"
  by (auto simp: auth_timeout_def continue_awaiter_store split: prod.splits bool.splits
      dest!: settle_handshake_store after_handshake_store)

lemma ping_tick_store: "wsStore (ping_tick c t s) = wsStore s"
  by (auto simp: ping_tick_def clear_timer_def log_line_def split: prod.splits option.splits
      dest!: sendWSMessage_store)


subsection \<open>Replay after a reconnection\<close>







subsection \<open>Backoff\<close>





subsection \<open>Connecting twice\<close>
















subsection \<open>The private category without credentials\<close>

text \<open>
  Claim C5 fails as stated: without credentials \<open>connect\<close> on the private category
  returns the pending promise of a socket it has created, and the promise is fulfilled
  when the socket opens.
\<close>

theorem connect_private_without_credentials_counterexample:
  "fst (connect CPrivate (new_client default_options)) = Promise 0 \<and>
   map readyState (sockets (snd (connect CPrivate (new_client default_options)))) =
     [WS_CONNECTING] \<and>
   map settled (sockets (run [(0, Call_connect CPrivate), (1, Socket_open 0)]
     (new_client default_options))) = [Fulfilled]"
  by (simp add: model_defs Let_def)

text \<open>
  Claim C5, amended. \<open>connect\<close> does not look at the credentials. Without them, and
  the private connection not being open already, it creates a socket and returns its
  promise; when the socket opens the handshake is skipped: nothing is sent, no handshake
  is started, "open" is emitted and the promise is fulfilled.
\<close>

theorem private_connect_skips_handshake:
  assumes "\<not> (truthy (key (options s)) \<and> truthy (secret (options s)))"
    and "\<not> isWsOpen s (getWsKey CPrivate)"
  shows "fst (connect CPrivate s) = Promise (length (sockets s)) \<and>
         map readyState (sockets (snd (connect CPrivate s))) =
           map readyState (sockets s) @ [WS_CONNECTING] \<and>
         settled (sockets (step now (Socket_open (length (sockets s))) (snd (connect CPrivate s))) !
           length (sockets s)) = Fulfilled \<and>
         map sent (sockets (step now (Socket_open (length (sockets s))) (snd (connect CPrivate s)))) =
           map sent (sockets s) @ [[]] \<and>
         emitted (step now (Socket_open (length (sockets s))) (snd (connect CPrivate s))) =
           emitted s @ [open_event CPrivate] \<and>
         handshakes (step now (Socket_open (length (sockets s))) (snd (connect CPrivate s))) =
           handshakes s"
  using assms
  by (auto simp: connect_def connectWS_def Let_def log_line_def ws_onopen_def set_readyState_def
      startPingPong_def set_timer_def emit_def resolve_def settle_def continue_awaiter_def
      nth_append)

theorem private_connect_skips_handshake_witness:
  "\<not> (truthy (key (options (new_client default_options))) \<and>
       truthy (secret (options (new_client default_options)))) \<and>
   \<not> isWsOpen (new_client default_options) (getWsKey CPrivate) \<and>
   fst (connect CPrivate (new_client default_options)) = Promise 0 \<and>
   settled (sockets (step 1 (Socket_open 0) (snd (connect CPrivate (new_client default_options))))
     ! 0) = Fulfilled \<and>
   map sent (sockets (step 1 (Socket_open 0) (snd (connect CPrivate (new_client default_options)))))
     = [[]] \<and>
   emitted (step 1 (Socket_open 0) (snd (connect CPrivate (new_client default_options)))) =
     [open_event CPrivate] \<and>
   handshakes (step 1 (Socket_open 0) (snd (connect CPrivate (new_client default_options)))) = []"
proof -
  have a: "\<not> (truthy (key (options (new_client default_options))) \<and>
       truthy (secret (options (new_client default_options))))"
    by (simp add: new_client_def default_options_def)
  have b: "\<not> isWsOpen (new_client default_options) (getWsKey CPrivate)"
    by (simp add: new_client_def isWsOpen_def)
  have l: "length (sockets (new_client default_options)) = 0"
    "sockets (new_client default_options) = []"
    "emitted (new_client default_options) = []" "handshakes (new_client default_options) = []"
    by (simp_all add: new_client_def)
  show ?thesis
    using a b private_connect_skips_handshake [OF a b, of 1]
    unfolding l by simp
qed

subsection \<open>Private topics and the handshake\<close>

text \<open>
  Claim C6 fails as stated: with credentials configured and the private socket open,
  \<open>subscribeOrders\<close> called while the handshake is still pending returns without an
  error and the subscribe request goes out right after the auth request.
\<close>

theorem subscribeOrders_before_handshake_counterexample:
  "map outcome (handshakes (run [(0, Call_connect CPrivate), (1, Socket_open 0)]
     (new_client with_credentials))) = [Pending] \<and>
   fst (subscribeOrders 2 (run [(0, Call_connect CPrivate), (1, Socket_open 0)]
     (new_client with_credentials))) = None \<and>
   map sent (sockets (snd (subscribeOrders 2 (run [(0, Call_connect CPrivate), (1, Socket_open 0)]
     (new_client with_credentials))))) =
     [[AuthMessage ''k'' 10001 (signMessage ''GET/realtime10001'' ''s''),
       subscribe_frame [''order''] 1 2]]"
  by (simp add: model_defs Let_def)

text \<open>
  Claim C6, amended. \<open>subscribeOrders\<close> fails with an error exactly when the key or the
  secret is missing or the private connection is not open; then the client is unchanged,
  so nothing is sent. Whether a handshake has completed plays no part: the outcome is the
  same whatever the handshakes are.
\<close>

theorem subscribeOrders_fails_iff:
  "(fst (subscribeOrders now s) \<noteq> None) =
     (\<not> truthy (key (options s)) \<or> \<not> truthy (secret (options s)) \<or>
      \<not> isWsOpen s (getWsKey CPrivate)) \<and>
   (fst (subscribeOrders now s) \<noteq> None \<longrightarrow> snd (subscribeOrders now s) = s) \<and>
   fst (subscribeOrders now (s\<lparr>handshakes := hs\<rparr>)) = fst (subscribeOrders now s)"
proof -
  have open_ok: "fst (subscribe CPrivate topics now s') = None"
    if "isWsOpen s' (getWsKey CPrivate)" for s' topics
  proof -
    from that obtain r i where r: "wsStore s' (getWsKey CPrivate) = Some r"
      "connectionState r = CONNECTED" "ws r = Some i" "socket_open s' i"
      by (auto simp: isWsOpen_def split: option.splits)
    show ?thesis
      by (simp add: subscribe_open [OF r])
  qed
  have closed: "subscribe CPrivate topics now s' =
      (Some (Error (''WebSocket for category '' @ category_name CPrivate @ '' is not connected'')), s')"
    if "\<not> isWsOpen s' (getWsKey CPrivate)" for s' topics
    using that by (simp add: subscribe_def)
  have "socket_open (s\<lparr>handshakes := hs\<rparr>) i = socket_open s i" for i
    by (simp add: socket_open_def)
  then have same: "isWsOpen (s\<lparr>handshakes := hs\<rparr>) k = isWsOpen s k" for k
    by (simp add: isWsOpen_def split: option.splits)
  show ?thesis
  proof (cases "isWsOpen s (getWsKey CPrivate)")
    case True
    then have "isWsOpen (s\<lparr>handshakes := hs\<rparr>) (getWsKey CPrivate)"
      by (simp add: same)
    then show ?thesis
      using True open_ok [of s] open_ok [of "s\<lparr>handshakes := hs\<rparr>"]
      by (simp add: subscribeOrders_def subscribePrivateTopic_def)
  next
    case False
    then have "\<not> isWsOpen (s\<lparr>handshakes := hs\<rparr>) (getWsKey CPrivate)"
      by (simp add: same)
    then show ?thesis
      using False closed [of s] closed [of "s\<lparr>handshakes := hs\<rparr>"]
      by (simp add: subscribeOrders_def subscribePrivateTopic_def)
  qed
qed

theorem subscribeOrders_fails_iff_witness:
  "fst (subscribeOrders 506 private_reconnecting) = None \<and>
   truthy (key (options private_reconnecting)) \<and>
   truthy (secret (options private_reconnecting)) \<and>
   isWsOpen private_reconnecting (getWsKey CPrivate) \<and>
   map outcome (handshakes private_reconnecting) = [Fulfilled, Pending] \<and>
   fst (subscribeOrders 1 (snd (connect CPrivate (new_client with_credentials)))) \<noteq> None \<and>
   \<not> isWsOpen (snd (connect CPrivate (new_client with_credentials))) (getWsKey CPrivate) \<and>
   snd (subscribeOrders 1 (snd (connect CPrivate (new_client with_credentials)))) =
     snd (connect CPrivate (new_client with_credentials))"
proof -
  let ?s = "snd (connect CPrivate (new_client with_credentials))"
  have a: "truthy (key (options private_reconnecting)) \<and>
      truthy (secret (options private_reconnecting)) \<and>
      isWsOpen private_reconnecting (getWsKey CPrivate)"
    by (simp add: private_reconnecting_eval with_credentials_def default_options_def
        isWsOpen_def socket_open_def)
  have h: "map outcome (handshakes private_reconnecting) = [Fulfilled, Pending]"
    by (simp add: private_reconnecting_eval)
  have b: "\<not> isWsOpen ?s (getWsKey CPrivate)"
    by (simp add: model_defs Let_def)
  note t = subscribeOrders_fails_iff [of 506 private_reconnecting "[]"]
  note u = subscribeOrders_fails_iff [of 1 ?s "[]"]
  have 1: "fst (subscribeOrders 506 private_reconnecting) = None"
    using t [THEN conjunct1] a by blast
  have 2: "fst (subscribeOrders 1 ?s) \<noteq> None"
    using u [THEN conjunct1] b by blast
  have 3: "snd (subscribeOrders 1 ?s) = ?s"
    using u [THEN conjunct2, THEN conjunct1] 2 by blast
  show ?thesis
    using a h b 1 2 3 by blast
qed

subsection \<open>Independence of the categories\<close>

lemma fold_addTopic_other:
  "k \<noteq> k' \<Longrightarrow> fold (\<lambda>t st. addTopic st k' t) topics st k = st k"
  by (induction topics arbitrary: st) (simp_all add: addTopic_def Let_def)

lemma fold_deleteTopic_other:
  "k \<noteq> k' \<Longrightarrow> fold (\<lambda>t st. deleteTopic st k' t) topics st k = st k"
  by (induction topics arbitrary: st) (simp_all add: deleteTopic_def Let_def)

lemma subscribe_other:
  "k \<noteq> getWsKey c \<Longrightarrow> wsStore (snd (subscribe c topics now s)) k = wsStore s k"
  by (auto simp: subscribe_def Let_def fold_addTopic_other split: prod.splits option.splits
      dest!: sendWSMessage_store generateRequestId_store)

lemma unsubscribe_other:
  "k \<noteq> getWsKey c \<Longrightarrow> wsStore (snd (unsubscribe c topics now s)) k = wsStore s k"
  by (auto simp: unsubscribe_def Let_def fold_deleteTopic_other split: prod.splits option.splits
      dest!: sendWSMessage_store generateRequestId_store)

text \<open>
  Claim C7 fails as stated: the reconnect delay is shared. With spot reconnecting and
  linear connected, a loss of the linear connection schedules its reconnect after 500 ms;
  if the spot reconnect attempt fails first, the same loss schedules it after 1000 ms.
\<close>

theorem shared_backoff_counterexample:
  "last (timers (run [(600, Socket_close 1 1006 [])] two_categories)) =
     \<lparr>callback = ReconnectTimer CLinear, delay = 500, active = True\<rparr> \<and>
   last (timers (run [(506, Socket_error 2 (Error ''ECONNREFUSED'')),
                      (600, Socket_close 1 1006 [])] two_categories)) =
     \<lparr>callback = ReconnectTimer CLinear, delay = 1000, active = True\<rparr>"
  by (simp add: two_categories_eval model_defs Let_def)

text \<open>
  Claim C7, amended. A turn that belongs to one category (a failure, a closure, the
  reconnect timer, the opening of the new socket, and every other call, event or timer
  of that category) leaves the registry's record of every other key, that is its state,
  its socket and its topic set, unchanged. (The reconnect delay is not part of the
  record: it is one option of the client.)
\<close>

theorem other_categories_untouched:
  assumes "turn_category s x = Some c" and "k \<noteq> getWsKey c"
  shows "wsStore (step now x s) k = wsStore s k"
proof (cases x)
  case (Call_connect c')
  then show ?thesis
    using assms
    by (simp add: connect_def connectWS_def Let_def log_line_def setWs_def setConnectionState_def)
next
  case (Call_subscribe c' topics)
  then show ?thesis
    using assms by (simp add: subscribe_other)
next
  case (Call_unsubscribe c' topics)
  then show ?thesis
    using assms by (simp add: unsubscribe_other)
next
  case Call_subscribeOrders
  then show ?thesis
    using assms by (simp add: subscribeOrders_def subscribePrivateTopic_def subscribe_other)
next
  case (Call_close c')
  then show ?thesis
    using assms
    by (simp add: close_def ws_close_def Let_def setConnectionState_def split: option.splits)
next
  case (Socket_open i)
  then show ?thesis
    using assms
    by (simp add: ws_onopen_store set_readyState_def setConnectionState_def split: if_splits)
next
  case (Socket_message i d)
  then show ?thesis
    by (simp add: ws_onmessage_store)
next
  case (Socket_error i e)
  then show ?thesis
    by (simp add: ws_onerror_store)
next
  case (Socket_close i code reason)
  then show ?thesis
    using assms
    by (simp add: ws_onclose_store set_readyState_def setConnectionState_def split: if_splits)
next
  case (Timer_fires t)
  then show ?thesis
    using assms
    by (simp add: auth_timeout_store reconnect_now_store ping_tick_store clear_timer_def
        setWs_def setConnectionState_def split: timer_callback.splits if_splits)
qed

theorem other_categories_untouched_witness:
  "turn_category two_categories (Socket_error 2 (Error ''ECONNREFUSED'')) = Some CSpot \<and>
   v5Linear \<noteq> getWsKey CSpot \<and>
   wsStore (step 506 (Socket_error 2 (Error ''ECONNREFUSED'')) two_categories) v5Linear =
     Some \<lparr>ws = Some 1, connectionState = CONNECTED, subscribedTopics = [''tickers.BTCUSDT'']\<rparr> \<and>
   turn_category two_categories (Socket_open 2) = Some CSpot \<and>
   wsStore (step 506 (Socket_open 2) two_categories) v5Linear =
     Some \<lparr>ws = Some 1, connectionState = CONNECTED, subscribedTopics = [''tickers.BTCUSDT'']\<rparr>"
proof -
  have a: "turn_category two_categories (Socket_error 2 (Error ''ECONNREFUSED'')) = Some CSpot"
    "turn_category two_categories (Socket_open 2) = Some CSpot"
    by (simp_all add: two_categories_eval)
  have k: "v5Linear \<noteq> getWsKey CSpot"
    by simp
  have l: "wsStore two_categories v5Linear =
      Some \<lparr>ws = Some 1, connectionState = CONNECTED, subscribedTopics = [''tickers.BTCUSDT'']\<rparr>"
    by (simp add: two_categories_eval)
  show ?thesis
    using a k other_categories_untouched [OF a(1) k, of 506]
      other_categories_untouched [OF a(2) k, of 506]
    unfolding l by blast
qed

end
